theory Spec2Isabelle
  imports Complex_Main
begin

section \<open>Fixed-point compound interest: the embedded program\<close>

text \<open>
  The program is three pure Python functions over unbounded integers. Python's
  \<open>int\<close> is modelled as HOL's \<open>int\<close>, and Python's \<open>//\<close> (floor division, rounding
  towards minus infinity) as \<open>div\<close> on \<open>int\<close>, which rounds the same way. Every divisor
  in the program is a positive constant, so no division raises.
\<close>

subsection \<open>Constants\<close>

definition WAD :: int where
  "WAD = 1000000000000000000"

definition BASE :: int where
  "BASE = 1000000000"

definition SECONDS_PER_YEAR :: int where
  "SECONDS_PER_YEAR = 31536000"

subsection \<open>Rate conversion\<close>

definition apy_to_rate_per_second :: "int \<Rightarrow> int" where
  "apy_to_rate_per_second apy =
     (let numerator = apy * WAD;
          denominator = 1000 * SECONDS_PER_YEAR
      in numerator div denominator)"

subsection \<open>The growth multiplier\<close>

definition compute_multiplier :: "int \<Rightarrow> int \<Rightarrow> int" where
  "compute_multiplier rate_per_second dt =
     (let diff = WAD div BASE;
          res = BASE
      in if dt \<noteq> 0 then
           (let exp_minus_one = dt - 1;
                exp_minus_two = (if dt > 2 then dt - 2 else 0);
                dt_u128 = dt;
                rate = rate_per_second;
                base_power_two = (rate * rate) div WAD;
                base_power_three = (base_power_two * rate) div WAD;
                temp = dt_u128 * exp_minus_one;
                second_term = temp * base_power_two div 2;
                third_term = temp * exp_minus_two * base_power_three div 6;
                offset = (dt_u128 * rate + second_term + third_term) div diff
            in BASE + offset)
         else res)"

subsection \<open>Applying the multiplier to a principal\<close>

text \<open>
  The source's parameter \<open>principal\<close> is written \<open>principal'\<close>, since HOL already
  has a constant of that name.
\<close>

definition calculate_interest :: "int \<Rightarrow> int \<Rightarrow> int \<Rightarrow> int \<Rightarrow> int \<Rightarrow> int" where
  "calculate_interest principal' start_epoch current_epoch epoch_duration interest_rate =
     (let rate_per_second = apy_to_rate_per_second interest_rate;
          interest = principal'
      in if current_epoch > start_epoch then
           (let start_time = start_epoch * epoch_duration;
                current_time = current_epoch * epoch_duration;
                dt = current_time - start_time;
                multiplier = compute_multiplier rate_per_second dt
            in (principal' * multiplier) div 1000000000)
         else interest)"

subsection \<open>The multiplier's offset with exact division\<close>

text \<open>
  The same sequence of operations as the non-zero branch of \<open>compute_multiplier\<close>, with
  every floor division replaced by division in the rationals. It returns the offset
  that the program adds to \<open>BASE\<close>.
\<close>

definition offset_exact :: "int \<Rightarrow> int \<Rightarrow> rat" where
  "offset_exact rate_per_second dt =
     (let diff = of_int WAD / of_int BASE;
          exp_minus_one = of_int (dt - 1);
          exp_minus_two = (if dt > 2 then of_int (dt - 2) else 0);
          dt_u128 = of_int dt;
          rate = of_int rate_per_second;
          base_power_two = (rate * rate) / of_int WAD;
          base_power_three = (base_power_two * rate) / of_int WAD;
          temp = dt_u128 * exp_minus_one;
          second_term = temp * base_power_two / 2;
          third_term = temp * exp_minus_two * base_power_three / 6
      in (dt_u128 * rate + second_term + third_term) / diff)"

text \<open>
  The specification's reading of that offset: \<open>BASE\<close> times the Taylor polynomial
  \<open>x + x\<^sup>2/2 + x\<^sup>3/6\<close> of \<open>e\<^sup>x - 1\<close> at \<open>x = rate_per_second * dt / WAD\<close>.
\<close>

definition taylor_offset_spec :: "int \<Rightarrow> int \<Rightarrow> rat" where
  "taylor_offset_spec rate_per_second dt =
     (let x = of_int rate_per_second * of_int dt / of_int WAD
      in of_int BASE * (x + x ^ 2 / 2 + x ^ 3 / 6))"

section \<open>Auxiliary facts\<close>

lemma compute_multiplier_zero: "compute_multiplier r 0 = BASE"
  by (simp add: compute_multiplier_def)

lemma compute_multiplier_nonzero:
  assumes "dt \<noteq> 0"
  shows "compute_multiplier r dt =
           BASE + (dt * r
                   + dt * (dt - 1) * (r * r div WAD) div 2
                   + dt * (dt - 1) * (if dt > 2 then dt - 2 else 0)
                       * ((r * r div WAD) * r div WAD) div 6) div 1000000000"
  using assms by (simp add: compute_multiplier_def Let_def WAD_def BASE_def)

subsection \<open>Signs and monotonicity of the intermediate values\<close>

lemma rate_per_second_nonneg:
  assumes "0 \<le> apy"
  shows "0 \<le> apy_to_rate_per_second apy"
  using assms
  by (simp add: apy_to_rate_per_second_def Let_def WAD_def SECONDS_PER_YEAR_def
      pos_imp_zdiv_nonneg_iff)

lemma base_power_two_nonneg: "0 \<le> r * r div WAD"
  by (simp add: WAD_def pos_imp_zdiv_nonneg_iff)

lemma base_power_three_nonneg:
  assumes "0 \<le> r"
  shows "0 \<le> (r * r div WAD) * r div WAD"
proof -
  have "0 \<le> (r * r div WAD) * r"
    using assms base_power_two_nonneg [of r] by (rule_tac mult_nonneg_nonneg)
  then show ?thesis
    by (simp add: WAD_def pos_imp_zdiv_nonneg_iff)
qed

lemma base_power_two_mono:
  assumes "0 \<le> r1" and "r1 \<le> r2"
  shows "r1 * r1 div WAD \<le> r2 * r2 div WAD"
proof -
  have "r1 * r1 \<le> r2 * r2"
    using assms by (intro mult_mono) auto
  then show ?thesis
    by (simp add: WAD_def zdiv_mono1)
qed

lemma base_power_three_mono:
  assumes "0 \<le> r1" and "r1 \<le> r2"
  shows "(r1 * r1 div WAD) * r1 div WAD \<le> (r2 * r2 div WAD) * r2 div WAD"
proof -
  have "(r1 * r1 div WAD) * r1 \<le> (r2 * r2 div WAD) * r2"
    using assms base_power_two_mono [OF assms] base_power_two_nonneg [of r2]
    by (intro mult_mono) auto
  then show ?thesis
    by (simp add: WAD_def zdiv_mono1)
qed

lemma temp_product_nonneg:
  assumes "1 \<le> (dt::int)"
  shows "0 \<le> dt * (dt - 1)"
  using assms by (intro mult_nonneg_nonneg) auto

lemma temp_product_mono:
  assumes "1 \<le> (d1::int)" and "d1 \<le> d2"
  shows "d1 * (d1 - 1) \<le> d2 * (d2 - 1)"
  using assms by (intro mult_mono) auto

lemma clamped_product_mono:
  assumes "1 \<le> (d1::int)" and "d1 \<le> d2"
  shows "d1 * (d1 - 1) * (if d1 > 2 then d1 - 2 else 0)
           \<le> d2 * (d2 - 1) * (if d2 > 2 then d2 - 2 else 0)"
proof -
  have t2: "0 \<le> d2 * (d2 - 1)"
    using assms by (intro temp_product_nonneg) auto
  have e: "(if d1 > 2 then d1 - 2 else 0) \<le> (if d2 > 2 then d2 - 2 else 0)"
    using assms by auto
  have e1: "0 \<le> (if d1 > 2 then d1 - 2 else 0)"
    by auto
  show ?thesis
    using temp_product_mono [OF assms] e t2 e1 by (rule mult_mono)
qed

lemma offset_floor_nonneg:
  assumes "0 \<le> r" and "1 \<le> dt"
  shows "0 \<le> (dt * r
               + dt * (dt - 1) * (r * r div WAD) div 2
               + dt * (dt - 1) * (if dt > 2 then dt - 2 else 0)
                   * ((r * r div WAD) * r div WAD) div 6) div 1000000000"
proof -
  have t: "0 \<le> dt * (dt - 1)"
    using assms by (intro temp_product_nonneg) auto
  have c: "0 \<le> dt * (dt - 1) * (if dt > 2 then dt - 2 else 0)"
    using t by (rule mult_nonneg_nonneg) simp
  have a1: "0 \<le> dt * r"
    using assms by simp
  have a2: "0 \<le> dt * (dt - 1) * (r * r div WAD) div 2"
    using t base_power_two_nonneg [of r] by (simp add: pos_imp_zdiv_nonneg_iff)
  have a3: "0 \<le> dt * (dt - 1) * (if dt > 2 then dt - 2 else 0)
                    * ((r * r div WAD) * r div WAD) div 6"
    using c base_power_three_nonneg [OF assms(1)]
    by (simp add: pos_imp_zdiv_nonneg_iff)
  show ?thesis
    using a1 a2 a3 by (simp add: pos_imp_zdiv_nonneg_iff)
qed

lemma multiplier_at_least_BASE:
  assumes "0 \<le> r" and "0 \<le> dt"
  shows "BASE \<le> compute_multiplier r dt"
proof (cases "dt = 0")
  case True
  then show ?thesis by (simp add: compute_multiplier_zero)
next
  case False
  then have "1 \<le> dt" using assms by simp
  then show ?thesis
    using offset_floor_nonneg [OF assms(1)] False by (simp add: compute_multiplier_nonzero)
qed

lemma multiplier_mono_positive_dt:
  assumes "0 \<le> r" and "1 \<le> d1" and "d1 \<le> d2"
  shows "compute_multiplier r d1 \<le> compute_multiplier r d2"
proof -
  have n1: "d1 \<noteq> 0" and n2: "d2 \<noteq> 0"
    using assms by auto
  have a1: "d1 * r \<le> d2 * r"
    using assms by (simp add: mult_right_mono)
  have "d1 * (d1 - 1) * (r * r div WAD) \<le> d2 * (d2 - 1) * (r * r div WAD)"
    using temp_product_mono [OF assms(2,3)] base_power_two_nonneg [of r]
    by (rule mult_right_mono)
  then have a2: "d1 * (d1 - 1) * (r * r div WAD) div 2
                   \<le> d2 * (d2 - 1) * (r * r div WAD) div 2"
    by (simp add: zdiv_mono1)
  have "d1 * (d1 - 1) * (if d1 > 2 then d1 - 2 else 0) * ((r * r div WAD) * r div WAD)
          \<le> d2 * (d2 - 1) * (if d2 > 2 then d2 - 2 else 0) * ((r * r div WAD) * r div WAD)"
    using clamped_product_mono [OF assms(2,3)] base_power_three_nonneg [OF assms(1)]
    by (rule mult_right_mono)
  then have a3: "d1 * (d1 - 1) * (if d1 > 2 then d1 - 2 else 0)
                     * ((r * r div WAD) * r div WAD) div 6
                   \<le> d2 * (d2 - 1) * (if d2 > 2 then d2 - 2 else 0)
                     * ((r * r div WAD) * r div WAD) div 6"
    by (simp add: zdiv_mono1)
  have "(d1 * r + d1 * (d1 - 1) * (r * r div WAD) div 2
           + d1 * (d1 - 1) * (if d1 > 2 then d1 - 2 else 0)
               * ((r * r div WAD) * r div WAD) div 6) div 1000000000
        \<le> (d2 * r + d2 * (d2 - 1) * (r * r div WAD) div 2
           + d2 * (d2 - 1) * (if d2 > 2 then d2 - 2 else 0)
               * ((r * r div WAD) * r div WAD) div 6) div 1000000000"
    using a1 a2 a3 by (intro zdiv_mono1) linarith+
  then show ?thesis
    by (simp only: compute_multiplier_nonzero [OF n1] compute_multiplier_nonzero [OF n2]
        add_left_mono)
qed

lemma multiplier_mono_in_rate:
  assumes "1 \<le> dt" and "0 \<le> r1" and "r1 \<le> r2"
  shows "compute_multiplier r1 dt \<le> compute_multiplier r2 dt"
proof -
  have n: "dt \<noteq> 0"
    using assms by auto
  have t: "0 \<le> dt * (dt - 1)"
    using assms by (intro temp_product_nonneg) auto
  have c: "0 \<le> dt * (dt - 1) * (if dt > 2 then dt - 2 else 0)"
    using t by (rule mult_nonneg_nonneg) simp
  have a1: "dt * r1 \<le> dt * r2"
    using assms by (simp add: mult_left_mono)
  have "dt * (dt - 1) * (r1 * r1 div WAD) \<le> dt * (dt - 1) * (r2 * r2 div WAD)"
    using base_power_two_mono [OF assms(2,3)] t by (rule mult_left_mono)
  then have a2: "dt * (dt - 1) * (r1 * r1 div WAD) div 2
                   \<le> dt * (dt - 1) * (r2 * r2 div WAD) div 2"
    by (simp add: zdiv_mono1)
  have "dt * (dt - 1) * (if dt > 2 then dt - 2 else 0) * ((r1 * r1 div WAD) * r1 div WAD)
          \<le> dt * (dt - 1) * (if dt > 2 then dt - 2 else 0) * ((r2 * r2 div WAD) * r2 div WAD)"
    using base_power_three_mono [OF assms(2,3)] c by (rule mult_left_mono)
  then have a3: "dt * (dt - 1) * (if dt > 2 then dt - 2 else 0)
                     * ((r1 * r1 div WAD) * r1 div WAD) div 6
                   \<le> dt * (dt - 1) * (if dt > 2 then dt - 2 else 0)
                     * ((r2 * r2 div WAD) * r2 div WAD) div 6"
    by (simp add: zdiv_mono1)
  have "(dt * r1 + dt * (dt - 1) * (r1 * r1 div WAD) div 2
           + dt * (dt - 1) * (if dt > 2 then dt - 2 else 0)
               * ((r1 * r1 div WAD) * r1 div WAD) div 6) div 1000000000
        \<le> (dt * r2 + dt * (dt - 1) * (r2 * r2 div WAD) div 2
           + dt * (dt - 1) * (if dt > 2 then dt - 2 else 0)
               * ((r2 * r2 div WAD) * r2 div WAD) div 6) div 1000000000"
    using a1 a2 a3 by (intro zdiv_mono1) linarith+
  then show ?thesis
    by (simp only: compute_multiplier_nonzero [OF n] add_left_mono)
qed

subsection \<open>The exact offset in closed form\<close>

lemma offset_exact_closed:
  assumes "0 < dt"
  shows "offset_exact r dt =
           of_int BASE * (of_int dt * (of_int r / of_int WAD)
             + of_int dt * of_int (dt - 1) / 2 * (of_int r / of_int WAD) ^ 2
             + of_int dt * of_int (dt - 1) * of_int (dt - 2) / 6 * (of_int r / of_int WAD) ^ 3)"
proof -
  have cl: "of_int dt * of_int (dt - 1) * (if dt > 2 then of_int (dt - 2) else 0)
              = (of_int dt * of_int (dt - 1) * of_int (dt - 2) :: rat)"
  proof (cases "dt > 2")
    case True
    then show ?thesis by simp
  next
    case False
    then have "dt = 1 \<or> dt = 2" using assms by auto
    then show ?thesis by auto
  qed
  have "offset_exact r dt =
          (of_int dt * of_int r
            + of_int dt * of_int (dt - 1) * (of_int r * of_int r / of_int WAD) / 2
            + (of_int dt * of_int (dt - 1) * (if dt > 2 then of_int (dt - 2) else 0))
                * (of_int r * of_int r / of_int WAD * of_int r / of_int WAD) / 6)
          / (of_int WAD / of_int BASE)"
    by (simp add: offset_exact_def Let_def)
  also have "\<dots> =
          (of_int dt * of_int r
            + of_int dt * of_int (dt - 1) * (of_int r * of_int r / of_int WAD) / 2
            + (of_int dt * of_int (dt - 1) * of_int (dt - 2))
                * (of_int r * of_int r / of_int WAD * of_int r / of_int WAD) / 6)
          / (of_int WAD / of_int BASE)"
    by (simp only: cl)
  also have "\<dots> = of_int BASE * (of_int dt * (of_int r / of_int WAD)
             + of_int dt * of_int (dt - 1) / 2 * (of_int r / of_int WAD) ^ 2
             + of_int dt * of_int (dt - 1) * of_int (dt - 2) / 6 * (of_int r / of_int WAD) ^ 3)"
    by (simp add: WAD_def BASE_def field_simps power2_eq_square power3_eq_cube)
  finally show ?thesis .
qed

subsection \<open>Bounds on the exponential at \<open>1/25\<close>\<close>

lemma exp_one_twentyfifth_upper: "exp (1 / 25 :: real) < 1040915 / 1000000"
proof -
  have "exp (1 / 200 :: real) \<le> 1 + 1 / 200 + (1 / 200)\<^sup>2"
    by (rule exp_bound) simp_all
  then have b: "exp (1 / 200 :: real) \<le> 1005025 / 1000000"
    by (simp add: power2_eq_square)
  have "exp (1 / 25 :: real) = exp (of_nat 8 * (1 / 200))"
    by simp
  also have "\<dots> = exp (1 / 200 :: real) ^ 8"
    by (rule exp_of_nat_mult)
  also have "\<dots> \<le> (1005025 / 1000000) ^ 8"
    using b by (intro power_mono) simp_all
  also have "\<dots> < (1040915 / 1000000 :: real)"
    by (simp add: power_divide)
  finally show ?thesis .
qed

lemma exp_one_twentyfifth_lower: "10404 / 10000 \<le> exp (1 / 25 :: real)"
proof -
  have "1 + 1 / 50 \<le> exp (1 / 50 :: real)"
    by (rule exp_ge_add_one_self)
  then have "(1 + 1 / 50) ^ 2 \<le> exp (1 / 50 :: real) ^ 2"
    by (intro power_mono) simp_all
  also have "\<dots> = exp (of_nat 2 * (1 / 50 :: real))"
    by (rule exp_of_nat_mult [symmetric])
  finally show ?thesis
    by (simp add: power2_eq_square)
qed

lemma scenario_value:
  "calculate_interest (1000 * 10 ^ 18) 0 52560 600 40 = 1040497259000000000000"
  by (simp add: calculate_interest_def Let_def apy_to_rate_per_second_def compute_multiplier_def
      WAD_def BASE_def SECONDS_PER_YEAR_def)

section \<open>The claims\<close>

text \<open>
  C1. For every rate \<open>r\<close> and every \<open>dt \<ge> 0\<close>, \<open>compute_multiplier r dt\<close> is \<open>BASE = 10\<^sup>9\<close>
  when \<open>dt = 0\<close>, and otherwise \<open>BASE + (dt * r + second_term + third_term) div (WAD div BASE)\<close>
  with \<open>base_power_two = (r * r) div WAD\<close>, \<open>base_power_three = (base_power_two * r) div WAD\<close>,
  \<open>temp = dt * (dt - 1)\<close>, \<open>exp_minus_two = dt - 2\<close> if \<open>dt > 2\<close> and \<open>0\<close> otherwise,
  \<open>second_term = (temp * base_power_two) div 2\<close>,
  \<open>third_term = (temp * exp_minus_two * base_power_three) div 6\<close> and \<open>WAD = 10\<^sup>1\<^sup>8\<close>: each
  floor division sits where the formula puts it.
\<close>

theorem compute_multiplier_formula:
  assumes "0 \<le> dt"
  shows "compute_multiplier r dt =
           (let base_power_two = (r * r) div WAD;
                base_power_three = (base_power_two * r) div WAD;
                temp = dt * (dt - 1);
                exp_minus_two = (if dt > 2 then dt - 2 else 0);
                second_term = (temp * base_power_two) div 2;
                third_term = (temp * exp_minus_two * base_power_three) div 6
            in if dt = 0 then BASE
               else BASE + (dt * r + second_term + third_term) div (WAD div BASE))
         \<and> BASE = 10 ^ 9 \<and> WAD = 10 ^ 18"
  by (simp add: compute_multiplier_def Let_def WAD_def BASE_def)

theorem compute_multiplier_formula_witness:
  "(0::int) \<le> 31536000
   \<and> compute_multiplier 1268391679 31536000 = 1040497259
   \<and> BASE = 10 ^ 9 \<and> WAD = 10 ^ 18"
  using compute_multiplier_formula [of 31536000 1268391679]
  by (simp add: Let_def WAD_def BASE_def)

text \<open>
  C2. Whenever \<open>current_epoch > start_epoch\<close>, \<open>calculate_interest\<close> returns
  \<open>principal * compute_multiplier (apy_to_rate_per_second interest_rate) dt div BASE\<close> with
  \<open>dt = (current_epoch - start_epoch) * epoch_duration\<close>; the elapsed time that the code
  computes as \<open>current_epoch * epoch_duration - start_epoch * epoch_duration\<close> is that
  same number.
\<close>

theorem calculate_interest_elapsed:
  assumes "s < c"
  shows "calculate_interest P s c D R =
           P * compute_multiplier (apy_to_rate_per_second R) ((c - s) * D) div BASE
         \<and> c * D - s * D = (c - s) * D"
  using assms by (simp add: calculate_interest_def Let_def BASE_def left_diff_distrib)

theorem calculate_interest_elapsed_witness:
  "(0::int) < 52560
   \<and> calculate_interest (1000 * 10 ^ 18) 0 52560 600 40 =
       (1000 * 10 ^ 18) * compute_multiplier (apy_to_rate_per_second 40) ((52560 - 0) * 600)
         div BASE
   \<and> (52560::int) * 600 - 0 * 600 = (52560 - 0) * 600"
  using calculate_interest_elapsed [of 0 52560 "1000 * 10 ^ 18" 600 40] by simp

text \<open>
  C3, as stated: with every floor division replaced by exact division, the offset for
  \<open>r \<ge> 0\<close> and \<open>dt > 0\<close> would equal \<open>BASE * (x + x\<^sup>2/2 + x\<^sup>3/6)\<close> at \<open>x = r * dt / WAD\<close>, the
  Taylor polynomial of \<open>e\<^sup>x - 1\<close>. It does not: at \<open>r = WAD\<close> and \<open>dt = 1\<close> the exact offset
  is \<open>BASE\<close>, while the Taylor polynomial gives \<open>5/3 * BASE\<close>.
\<close>

theorem offset_exact_not_taylor:
  "(0::int) \<le> 1000000000000000000 \<and> (0::int) < 1
   \<and> offset_exact 1000000000000000000 1 = 1000000000
   \<and> taylor_offset_spec 1000000000000000000 1 = 5000000000 / 3
   \<and> offset_exact 1000000000000000000 1 \<noteq> taylor_offset_spec 1000000000000000000 1"
  by (simp add: offset_exact_def taylor_offset_spec_def Let_def WAD_def BASE_def)

text \<open>
  C3, amended: with every floor division replaced by exact division, the offset for
  \<open>dt > 0\<close> equals \<open>BASE * (x + (1 - 1/dt) * x\<^sup>2/2 + (1 - 1/dt) * (1 - 2/dt) * x\<^sup>3/6)\<close> at
  \<open>x = r * dt / WAD\<close>. Written in \<open>y = r / WAD\<close> this is
  \<open>BASE * (dt * y + dt * (dt - 1) / 2 * y\<^sup>2 + dt * (dt - 1) * (dt - 2) / 6 * y\<^sup>3)\<close>: the
  binomial expansion of \<open>(1 + y)\<^bsup>dt\<^esup> - 1\<close> cut after its third-order term. It shares
  only the first-order term with the Taylor polynomial of \<open>e\<^sup>x - 1\<close>.
\<close>

theorem offset_exact_binomial:
  assumes "0 < dt"
  shows "offset_exact r dt =
           (let x = of_int r * of_int dt / of_int WAD
            in of_int BASE * (x + (1 - 1 / of_int dt) * x ^ 2 / 2
                 + (1 - 1 / of_int dt) * (1 - 2 / of_int dt) * x ^ 3 / 6))
         \<and> offset_exact r dt =
           (let y = of_int r / of_int WAD
            in of_int BASE * (of_int dt * y
                 + of_int dt * of_int (dt - 1) / 2 * y ^ 2
                 + of_int dt * of_int (dt - 1) * of_int (dt - 2) / 6 * y ^ 3))"
proof -
  have nz: "(of_int dt :: rat) \<noteq> 0"
    using assms by simp
  have "offset_exact r dt =
          (let x = of_int r * of_int dt / of_int WAD
           in of_int BASE * (x + (1 - 1 / of_int dt) * x ^ 2 / 2
                + (1 - 1 / of_int dt) * (1 - 2 / of_int dt) * x ^ 3 / 6))"
    unfolding offset_exact_closed [OF assms] Let_def
    using nz by (simp add: WAD_def BASE_def field_simps power2_eq_square power3_eq_cube)
  moreover have "offset_exact r dt =
          (let y = of_int r / of_int WAD
           in of_int BASE * (of_int dt * y
                + of_int dt * of_int (dt - 1) / 2 * y ^ 2
                + of_int dt * of_int (dt - 1) * of_int (dt - 2) / 6 * y ^ 3))"
    unfolding Let_def by (rule offset_exact_closed [OF assms])
  ultimately show ?thesis
    by (rule conjI)
qed

theorem offset_exact_binomial_witness:
  "(0::int) < 2 \<and> offset_exact 1000000000000000000 2 = 3000000000"
  using offset_exact_binomial [of 2 1000000000000000000]
  by (simp add: Let_def WAD_def BASE_def)

text \<open>
  C4. For \<open>principal \<ge> 0\<close>, \<open>epoch_duration > 0\<close>, \<open>interest_rate \<ge> 0\<close> and
  \<open>current_epoch > start_epoch\<close>, the result of \<open>calculate_interest\<close> is at least the
  principal.
\<close>

theorem calculate_interest_ge_principal:
  assumes "0 \<le> P" and "0 < D" and "0 \<le> R" and "s < c"
  shows "P \<le> calculate_interest P s c D R"
proof -
  have "0 < (c - s) * D"
    using assms by simp
  then have dt: "0 \<le> c * D - s * D"
    by (simp add: left_diff_distrib)
  have "BASE \<le> compute_multiplier (apy_to_rate_per_second R) (c * D - s * D)"
    using rate_per_second_nonneg [OF assms(3)] dt by (rule multiplier_at_least_BASE)
  then have "P * BASE \<le> P * compute_multiplier (apy_to_rate_per_second R) (c * D - s * D)"
    using assms(1) by (rule mult_left_mono)
  then have "P * BASE div 1000000000
               \<le> P * compute_multiplier (apy_to_rate_per_second R) (c * D - s * D) div 1000000000"
    by (simp add: zdiv_mono1)
  then show ?thesis
    using assms(4) by (simp add: calculate_interest_def Let_def BASE_def)
qed

theorem calculate_interest_ge_principal_witness:
  "(0::int) \<le> 1000 \<and> (0::int) < 600 \<and> (0::int) \<le> 40 \<and> (0::int) < 52560
   \<and> 1000 \<le> calculate_interest 1000 0 52560 600 40"
  using calculate_interest_ge_principal [of 1000 600 40 0 52560] by simp

text \<open>
  C5. Whenever \<open>current_epoch \<le> start_epoch\<close>, \<open>calculate_interest\<close> returns the principal
  unchanged, for every principal, epoch duration and interest rate; this covers equal
  epochs (among them \<open>start_epoch = current_epoch = 0\<close>) and a current epoch before the
  start epoch alike.
\<close>

theorem calculate_interest_no_advance:
  assumes "c \<le> s"
  shows "calculate_interest P s c D R = P"
  using assms by (simp add: calculate_interest_def)

theorem calculate_interest_no_advance_witness:
  "(0::int) \<le> 0 \<and> calculate_interest 1000 0 0 600 40 = 1000
   \<and> (3::int) \<le> 7 \<and> calculate_interest 1000 7 3 600 40 = 1000"
  using calculate_interest_no_advance [of 0 0 1000 600 40]
    calculate_interest_no_advance [of 3 7 1000 600 40]
  by simp

text \<open>
  C6. For a fixed rate \<open>r \<ge> 0\<close> and elapsed times \<open>0 \<le> dt1 < dt2\<close>,
  \<open>compute_multiplier r dt1 \<le> compute_multiplier r dt2\<close>.
\<close>

theorem compute_multiplier_mono_time:
  assumes "0 \<le> r" and "0 \<le> dt1" and "dt1 < dt2"
  shows "compute_multiplier r dt1 \<le> compute_multiplier r dt2"
proof (cases "dt1 = 0")
  case True
  have "0 \<le> dt2"
    using assms by simp
  then show ?thesis
    using True multiplier_at_least_BASE [OF assms(1)] by (simp add: compute_multiplier_zero)
next
  case False
  then have "1 \<le> dt1" and "dt1 \<le> dt2"
    using assms by auto
  then show ?thesis
    using assms(1) by (intro multiplier_mono_positive_dt)
qed

theorem compute_multiplier_mono_time_witness:
  "(0::int) \<le> 1268391679 \<and> (0::int) \<le> 600 \<and> (600::int) < 31536000
   \<and> compute_multiplier 1268391679 600 \<le> compute_multiplier 1268391679 31536000"
  using compute_multiplier_mono_time [of 1268391679 600 31536000] by simp

text \<open>
  C7. For a fixed elapsed time \<open>dt > 0\<close> and rates \<open>0 \<le> r1 < r2\<close>,
  \<open>compute_multiplier r1 dt \<le> compute_multiplier r2 dt\<close>.
\<close>

theorem compute_multiplier_mono_rate:
  assumes "0 < dt" and "0 \<le> r1" and "r1 < r2"
  shows "compute_multiplier r1 dt \<le> compute_multiplier r2 dt"
  using assms by (intro multiplier_mono_in_rate) auto

theorem compute_multiplier_mono_rate_witness:
  "(0::int) < 31536000 \<and> (0::int) \<le> 1268391679 \<and> (1268391679::int) < 1648909183
   \<and> compute_multiplier 1268391679 31536000 \<le> compute_multiplier 1648909183 31536000"
  using compute_multiplier_mono_rate [of 31536000 1268391679 1648909183] by simp

text \<open>
  C8. For every \<open>apy\<close>, \<open>apy_to_rate_per_second apy\<close> is the single floor division of
  \<open>apy * 10\<^sup>1\<^sup>8\<close> by \<open>1000 * 31536000\<close>, where \<open>SECONDS_PER_YEAR = 31536000\<close>; in particular
  \<open>apy_to_rate_per_second 0 = 0\<close>.
\<close>

theorem apy_to_rate_per_second_formula:
  "apy_to_rate_per_second apy = (apy * 10 ^ 18) div (1000 * 31536000)
   \<and> apy_to_rate_per_second apy = (apy * WAD) div (1000 * SECONDS_PER_YEAR)
   \<and> SECONDS_PER_YEAR = 31536000
   \<and> apy_to_rate_per_second 0 = 0"
  by (simp add: apy_to_rate_per_second_def WAD_def SECONDS_PER_YEAR_def)

text \<open>
  C9. For principal \<open>1000 * 10\<^sup>1\<^sup>8\<close>, start epoch \<open>0\<close>, current epoch \<open>52560\<close>, epoch duration
  \<open>600\<close> and interest rate \<open>40\<close>, the result (\<open>1040497259 * 10\<^sup>1\<^sup>2\<close>) is strictly greater
  than the principal, and the earned interest is nearer to \<open>40.81 * 10\<^sup>1\<^sup>8\<close> than to the
  simple-interest value \<open>40 * 10\<^sup>1\<^sup>8\<close>; it is also nearer to the continuous-compounding
  value \<open>1000 * (e\<^bsup>0.04\<^esup> - 1) * 10\<^sup>1\<^sup>8\<close> itself than to \<open>40 * 10\<^sup>1\<^sup>8\<close>.
\<close>

theorem concrete_scenario_one_year:
  "calculate_interest (1000 * 10 ^ 18) 0 52560 600 40 = 1040497259000000000000
   \<and> 1000 * 10 ^ 18 < calculate_interest (1000 * 10 ^ 18) 0 52560 600 40
   \<and> \<bar>calculate_interest (1000 * 10 ^ 18) 0 52560 600 40 - 1000 * 10 ^ 18 - 4081 * 10 ^ 16\<bar>
       < \<bar>calculate_interest (1000 * 10 ^ 18) 0 52560 600 40 - 1000 * 10 ^ 18 - 40 * 10 ^ 18\<bar>
   \<and> \<bar>real_of_int (calculate_interest (1000 * 10 ^ 18) 0 52560 600 40 - 1000 * 10 ^ 18)
         - 1000 * (exp (1 / 25) - 1) * 10 ^ 18\<bar>
       < \<bar>real_of_int (calculate_interest (1000 * 10 ^ 18) 0 52560 600 40 - 1000 * 10 ^ 18)
         - 40 * 10 ^ 18\<bar>"
proof -
  have near: "\<bar>real_of_int (1040497259000000000000 - 1000 * 10 ^ 18)
                 - 1000 * (exp (1 / 25) - 1) * 10 ^ 18\<bar>
               < \<bar>real_of_int (1040497259000000000000 - 1000 * 10 ^ 18) - 40 * 10 ^ 18\<bar>"
    using exp_one_twentyfifth_upper exp_one_twentyfifth_lower by simp
  show ?thesis
    unfolding scenario_value using near by simp
qed

text \<open>
  C10. With interest rate \<open>0\<close>, \<open>calculate_interest\<close> returns the principal exactly, for all
  integer principals, epochs and epoch durations, also when the current epoch is after
  the start epoch: the zero APY converts to the zero rate, \<open>compute_multiplier 0 dt\<close> is
  \<open>BASE\<close> for every \<open>dt\<close>, and \<open>principal * BASE div BASE\<close> is the principal.
\<close>

theorem calculate_interest_zero_rate:
  "calculate_interest P s c D 0 = P
   \<and> apy_to_rate_per_second 0 = 0
   \<and> compute_multiplier 0 dt = BASE
   \<and> P * BASE div BASE = P"
  by (simp add: calculate_interest_def Let_def apy_to_rate_per_second_def
      compute_multiplier_def BASE_def WAD_def)

end
